theory Spec2Isabelle
  imports Complex_Main "HOL-Library.Log_Nat"
begin

section \<open>EMA crossover strategy: data model\<close>

text \<open>
  The strategy of \<^verbatim>\<open>multi_crypto_ema_strategy.py\<close> (class
  \<^verbatim>\<open>EstrategiaCrucesEMAs\<close>). Prices and volumes are Python floats; they are
  modelled as real numbers with exact arithmetic, and the float value NaN as \<open>None\<close>
  of \<open>real option\<close>. Where the rounding of the floats decides a property,
  \<^verbatim>\<open>calcular_vwap\<close> has a second model in which every operation rounds to
  binary64. A division whose denominator is zero has no real result
  (Python floats raise, numpy floats give inf or NaN): it is the error branch
  \<open>ZeroDivisionError\<close>. Assigning a column of the wrong length to a DataFrame raises
  \<open>ValueError\<close>.
\<close>

datatype py_error = ZeroDivisionError | ValueError

definition py_div :: "real \<Rightarrow> real \<Rightarrow> py_error + real" where
  "py_div a b = (if b = 0 then Inl ZeroDivisionError else Inr (a / b))"

text \<open>One row of the DataFrame built by \<^verbatim>\<open>obtener_datos\<close>.\<close>

record bar =
  timestamp :: int
  open_p :: real
  high :: real
  low :: real
  close :: real
  volume :: real
  datetime :: int
  symbol :: string

section \<open>calcular_vwap\<close>

definition typical_price :: "'a bar_scheme \<Rightarrow> real" where
  "typical_price b = (high b + low b + close b) / 3"

text \<open>
  The loop \<^verbatim>\<open>for i in range(len(df))\<close>: the bars still to visit, the two running
  sums and the list \<^verbatim>\<open>vwap_values\<close> built so far.
\<close>

fun vwap_loop :: "'a bar_scheme list \<Rightarrow> real \<Rightarrow> real \<Rightarrow> real list \<Rightarrow> py_error + real list" where
  "vwap_loop [] cumulative_pv cumulative_volume vwap_values = Inr vwap_values"
| "vwap_loop (b # bs) cumulative_pv cumulative_volume vwap_values =
     (let pv = typical_price b * volume b;
          cumulative_pv' = cumulative_pv + pv;
          cumulative_volume' = cumulative_volume + volume b
      in if cumulative_volume' > 0
         then (case py_div cumulative_pv' cumulative_volume' of
                 Inl e \<Rightarrow> Inl e
               | Inr vwap \<Rightarrow> vwap_loop bs cumulative_pv' cumulative_volume' (vwap_values @ [vwap]))
         else vwap_loop bs cumulative_pv' cumulative_volume' (vwap_values @ [typical_price b]))"

definition calcular_vwap :: "'a bar_scheme list \<Rightarrow> py_error + real list" where
  "calcular_vwap df = vwap_loop df 0 0 []"

text \<open>The value the loop appends at index \<open>i\<close>, from the sums carried into the loop.\<close>

definition vwap_en :: "'a bar_scheme list \<Rightarrow> real \<Rightarrow> real \<Rightarrow> nat \<Rightarrow> real" where
  "vwap_en bs cpv cv i =
     (if cv + (\<Sum>j\<le>i. volume (bs ! j)) > 0
      then (cpv + (\<Sum>j\<le>i. typical_price (bs ! j) * volume (bs ! j))) / (cv + (\<Sum>j\<le>i. volume (bs ! j)))
      else typical_price (bs ! i))"

section \<open>calcular_vwap in binary64 arithmetic\<close>

text \<open>
  Python floats and numpy \<^verbatim>\<open>float64\<close> values are IEEE 754 binary64 numbers: every
  operation gives the exact result rounded to 53 significant bits, to the nearest value
  and to the even one on a tie. \<open>f64\<close> is this rounding on the reals; the range of
  the exponent is not bounded here (no overflow and no subnormal numbers).
\<close>

definition pow2 :: "int \<Rightarrow> real" where
  "pow2 k = (if 0 \<le> k then 2 ^ nat k else 1 / 2 ^ nat (- k))"

text \<open>The exponent \<open>e\<close> with \<open>2 ^ e \<le> \<bar>x\<bar> < 2 ^ (e + 1)\<close>, for \<open>x \<noteq> 0\<close>.\<close>

definition exponente :: "real \<Rightarrow> int" where
  "exponente x =
     (let a = \<bar>x\<bar>
      in if 1 \<le> a then int (floorlog 2 (nat \<lfloor>a\<rfloor>)) - 1
         else (let k = int (floorlog 2 (nat \<lfloor>1 / a\<rfloor>)) - 1
               in if a * pow2 k = 1 then - k else - k - 1))"

text \<open>The nearest integer, the even one of the two when \<open>q\<close> lies half way.\<close>

definition redondeo_par :: "real \<Rightarrow> int" where
  "redondeo_par q =
     (let f = \<lfloor>q\<rfloor>; r = q - of_int f
      in if r < 1 / 2 then f else if 1 / 2 < r then f + 1
         else if even f then f else f + 1)"

definition f64 :: "real \<Rightarrow> real" where
  "f64 x = (if x = 0 then 0
            else (let ulp = pow2 (exponente x - 52)
                  in of_int (redondeo_par (x / ulp)) * ulp))"





section \<open>pandas series and the TA-Lib interface\<close>

text \<open>
  A float column is a list of \<open>real option\<close>. Every comparison with NaN is false,
  arithmetic with NaN is NaN, and \<^verbatim>\<open>shift(n)\<close> moves the values down by \<open>n\<close>
  rows, filling the first \<open>n\<close> rows with NaN.
\<close>

type_synonym serie = "real option list"

definition nan_gt :: "real option \<Rightarrow> real option \<Rightarrow> bool" where
  "nan_gt a b = (case (a, b) of (Some x, Some y) \<Rightarrow> x > y | _ \<Rightarrow> False)"

definition nan_lt :: "real option \<Rightarrow> real option \<Rightarrow> bool" where
  "nan_lt a b = (case (a, b) of (Some x, Some y) \<Rightarrow> x < y | _ \<Rightarrow> False)"

definition nan_ge :: "real option \<Rightarrow> real option \<Rightarrow> bool" where
  "nan_ge a b = (case (a, b) of (Some x, Some y) \<Rightarrow> x \<ge> y | _ \<Rightarrow> False)"

definition nan_le :: "real option \<Rightarrow> real option \<Rightarrow> bool" where
  "nan_le a b = (case (a, b) of (Some x, Some y) \<Rightarrow> x \<le> y | _ \<Rightarrow> False)"

definition nan_minus :: "real option \<Rightarrow> real option \<Rightarrow> real option" where
  "nan_minus a b = (case (a, b) of (Some x, Some y) \<Rightarrow> Some (x - y) | _ \<Rightarrow> None)"

text \<open>\<^verbatim>\<open>(close - vwap) / vwap * 100\<close> on float columns: a zero divisor gives inf or NaN.\<close>

definition pct_vs :: "real \<Rightarrow> real \<Rightarrow> real option" where
  "pct_vs c v = (if v = 0 then None else Some ((c - v) / v * 100))"

definition shift :: "nat \<Rightarrow> 'a option list \<Rightarrow> 'a option list" where
  "shift n xs = take (length xs) (replicate n None @ xs)"

definition serie_gt :: "serie \<Rightarrow> serie \<Rightarrow> bool list" where
  "serie_gt xs ys = map2 nan_gt xs ys"

definition serie_lt :: "serie \<Rightarrow> serie \<Rightarrow> bool list" where
  "serie_lt xs ys = map2 nan_lt xs ys"

definition serie_ge :: "serie \<Rightarrow> serie \<Rightarrow> bool list" where
  "serie_ge xs ys = map2 nan_ge xs ys"

definition serie_le :: "serie \<Rightarrow> serie \<Rightarrow> bool list" where
  "serie_le xs ys = map2 nan_le xs ys"

definition serie_and :: "bool list \<Rightarrow> bool list \<Rightarrow> bool list" where
  "serie_and xs ys = map2 (\<and>) xs ys"

definition serie_not :: "bool list \<Rightarrow> bool list" where
  "serie_not xs = map Not xs"

text \<open>
  TA-Lib is an external library: the functions the strategy calls are parameters of the
  model, and every property below holds for any implementation of them.
\<close>

record talib =
  EMA :: "real list \<Rightarrow> nat \<Rightarrow> serie"
  RSI :: "real list \<Rightarrow> nat \<Rightarrow> serie"
  MACD :: "real list \<Rightarrow> serie \<times> serie \<times> serie"

section \<open>calcular_indicadores\<close>

text \<open>One row of the DataFrame returned by \<^verbatim>\<open>calcular_indicadores\<close>.\<close>

record fila = bar +
  ema_rapida :: "real option"
  ema_lenta :: "real option"
  vwap :: real
  diferencia_emas :: "real option"
  precio_vs_vwap :: "real option"
  cruce_alcista_emas :: bool
  cruce_bajista_emas :: bool
  precio_sobre_vwap :: bool
  cruce_alcista_vwap :: bool
  cruce_bajista_vwap :: bool
  cruce_alcista :: bool
  cruce_bajista :: bool
  tendencia :: string
  rsi :: "real option"
  macd :: "real option"
  macd_signal :: "real option"
  macd_hist :: "real option"

text \<open>
  The nested \<^verbatim>\<open>np.where\<close> of the trend column, from the two condition columns.
\<close>

definition np_where_tendencia :: "bool list \<Rightarrow> bool list \<Rightarrow> string list" where
  "np_where_tendencia c_alcista c_bajista =
     map2 (\<lambda>a b. if a then ''ALCISTA'' else if b then ''BAJISTA'' else ''NEUTRAL'') c_alcista c_bajista"

text \<open>
  Row \<open>i\<close> of the result, from the columns that come from outside the function body (the
  bars, the two EMA columns, the VWAP column, RSI and the three MACD outputs). The derived
  columns are computed in the order of the source.
\<close>

definition fila_en ::
  "bar list \<Rightarrow> serie \<Rightarrow> serie \<Rightarrow> real list \<Rightarrow> serie \<Rightarrow> serie \<Rightarrow> serie \<Rightarrow> serie \<Rightarrow> nat \<Rightarrow> fila" where
  "fila_en df c_ema_rapida c_ema_lenta vwaps c_rsi c_macd c_macd_signal c_macd_hist i =
     (let closes = map close df;
          c_close = map Some closes;
          c_vwap = map Some vwaps;
          c_diferencia_emas = map2 nan_minus c_ema_rapida c_ema_lenta;
          c_precio_vs_vwap = map2 pct_vs closes vwaps;
          c_cruce_alcista_emas =
            serie_and (serie_gt c_ema_rapida c_ema_lenta)
                      (serie_le (shift 1 c_ema_rapida) (shift 1 c_ema_lenta));
          c_cruce_bajista_emas =
            serie_and (serie_lt c_ema_rapida c_ema_lenta)
                      (serie_ge (shift 1 c_ema_rapida) (shift 1 c_ema_lenta));
          c_precio_sobre_vwap = serie_gt c_close c_vwap;
          c_cruce_alcista_vwap =
            serie_and (serie_gt c_close c_vwap) (serie_le (shift 1 c_close) (shift 1 c_vwap));
          c_cruce_bajista_vwap =
            serie_and (serie_lt c_close c_vwap) (serie_ge (shift 1 c_close) (shift 1 c_vwap));
          c_cruce_alcista = serie_and c_cruce_alcista_emas c_precio_sobre_vwap;
          c_cruce_bajista = serie_and c_cruce_bajista_emas (serie_not c_precio_sobre_vwap);
          c_tendencia =
            np_where_tendencia
              (serie_and (serie_gt c_ema_rapida c_ema_lenta) (serie_gt c_close c_vwap))
              (serie_and (serie_lt c_ema_rapida c_ema_lenta) (serie_lt c_close c_vwap))
      in \<lparr>timestamp = timestamp (df ! i), open_p = open_p (df ! i), high = high (df ! i),
          low = low (df ! i), close = close (df ! i), volume = volume (df ! i),
          datetime = datetime (df ! i), symbol = symbol (df ! i),
          ema_rapida = c_ema_rapida ! i,
          ema_lenta = c_ema_lenta ! i,
          vwap = vwaps ! i,
          diferencia_emas = c_diferencia_emas ! i,
          precio_vs_vwap = c_precio_vs_vwap ! i,
          cruce_alcista_emas = c_cruce_alcista_emas ! i,
          cruce_bajista_emas = c_cruce_bajista_emas ! i,
          precio_sobre_vwap = c_precio_sobre_vwap ! i,
          cruce_alcista_vwap = c_cruce_alcista_vwap ! i,
          cruce_bajista_vwap = c_cruce_bajista_vwap ! i,
          cruce_alcista = c_cruce_alcista ! i,
          cruce_bajista = c_cruce_bajista ! i,
          tendencia = c_tendencia ! i,
          rsi = c_rsi ! i,
          macd = c_macd ! i,
          macd_signal = c_macd_signal ! i,
          macd_hist = c_macd_hist ! i\<rparr>)"

text \<open>
  \<open>per_rapida\<close> and \<open>per_lenta\<close> are \<^verbatim>\<open>self.ema_rapida\<close> and
  \<^verbatim>\<open>self.ema_lenta\<close>. A column whose length is not the number of rows cannot be
  assigned to the DataFrame.
\<close>

definition calcular_indicadores :: "talib \<Rightarrow> nat \<Rightarrow> nat \<Rightarrow> bar list \<Rightarrow> py_error + fila list" where
  "calcular_indicadores ta per_rapida per_lenta df =
     (let n = length df;
          closes = map close df;
          c_ema_rapida = EMA ta closes per_rapida;
          c_ema_lenta = EMA ta closes per_lenta
      in if length c_ema_rapida \<noteq> n \<or> length c_ema_lenta \<noteq> n then Inl ValueError
      else case calcular_vwap df of
        Inl e \<Rightarrow> Inl e
      | Inr vwaps \<Rightarrow>
         (let c_rsi = RSI ta closes 14
          in if length c_rsi \<noteq> n then Inl ValueError
          else case MACD ta closes of (c_macd, c_macd_signal, c_macd_hist) \<Rightarrow>
            if length c_macd \<noteq> n \<or> length c_macd_signal \<noteq> n \<or> length c_macd_hist \<noteq> n
            then Inl ValueError
            else Inr (map (fila_en df c_ema_rapida c_ema_lenta vwaps c_rsi c_macd c_macd_signal
                             c_macd_hist) [0..<n])))"

section \<open>generar_senales\<close>

text \<open>A signal dictionary; its keys carry the prefix \<open>s_\<close>.\<close>

record senal =
  s_tipo :: string
  s_symbol :: string
  s_datetime :: int
  s_precio :: real
  s_ema_rapida :: "real option"
  s_ema_lenta :: "real option"
  s_vwap :: real
  s_precio_vs_vwap :: "real option"
  s_rsi :: "real option"
  s_macd :: "real option"
  s_confirmacion :: "string list"

definition confirmar_senal_compra :: "fila \<Rightarrow> string list" where
  "confirmar_senal_compra f =
     (if nan_lt (rsi f) (Some 70) then [''RSI_OK''] else []) @
     (if nan_gt (macd f) (macd_signal f) then [''MACD_OK''] else [])"

definition confirmar_senal_venta :: "fila \<Rightarrow> string list" where
  "confirmar_senal_venta f =
     (if nan_gt (rsi f) (Some 30) then [''RSI_OK''] else []) @
     (if nan_lt (macd f) (macd_signal f) then [''MACD_OK''] else [])"

definition senal_compra :: "fila \<Rightarrow> senal" where
  "senal_compra f =
     \<lparr>s_tipo = ''COMPRA'', s_symbol = symbol f, s_datetime = datetime f, s_precio = close f,
      s_ema_rapida = ema_rapida f, s_ema_lenta = ema_lenta f, s_vwap = vwap f,
      s_precio_vs_vwap = precio_vs_vwap f, s_rsi = rsi f, s_macd = macd f,
      s_confirmacion = confirmar_senal_compra f\<rparr>"

definition senal_venta :: "fila \<Rightarrow> senal" where
  "senal_venta f =
     \<lparr>s_tipo = ''VENTA'', s_symbol = symbol f, s_datetime = datetime f, s_precio = close f,
      s_ema_rapida = ema_rapida f, s_ema_lenta = ema_lenta f, s_vwap = vwap f,
      s_precio_vs_vwap = precio_vs_vwap f, s_rsi = rsi f, s_macd = macd f,
      s_confirmacion = confirmar_senal_venta f\<rparr>"

text \<open>The loop over the rows, with the list \<^verbatim>\<open>senales\<close> built so far.\<close>

fun senales_loop :: "fila list \<Rightarrow> senal list \<Rightarrow> senal list" where
  "senales_loop [] senales = senales"
| "senales_loop (f # fs) senales =
     (if cruce_alcista f then senales_loop fs (senales @ [senal_compra f])
      else if cruce_bajista f then senales_loop fs (senales @ [senal_venta f])
      else senales_loop fs senales)"

definition generar_senales :: "fila list \<Rightarrow> senal list" where
  "generar_senales df = senales_loop df []"

text \<open>What one pass of the loop body appends for a row.\<close>

definition senales_de_fila :: "fila \<Rightarrow> senal list" where
  "senales_de_fila f =
     (if cruce_alcista f then [senal_compra f]
      else if cruce_bajista f then [senal_venta f] else [])"

section \<open>calcular_rendimiento\<close>

record posicion =
  entrada :: real
  fecha_entrada :: int
  p_symbol :: string

record operacion =
  o_symbol :: string
  o_entrada :: real
  o_salida :: real
  o_fecha_entrada :: int
  o_fecha_salida :: int
  o_rendimiento :: real

record resumen =
  operaciones :: "operacion list"
  rendimiento_total :: real
  num_operaciones :: nat
  tasa_acierto :: real
  rendimiento_promedio :: real

text \<open>
  The body of \<^verbatim>\<open>for senal in senales\<close> on the state of the loop: the open
  position, if any, and the closed trades.
\<close>

definition rendimiento_paso ::
  "posicion option \<times> operacion list \<Rightarrow> senal \<Rightarrow> py_error + posicion option \<times> operacion list" where
  "rendimiento_paso st senal =
     (case st of (pos, ops) \<Rightarrow>
        if s_tipo senal = ''COMPRA'' \<and> pos = None
        then Inr (Some \<lparr>entrada = s_precio senal, fecha_entrada = s_datetime senal,
                        p_symbol = s_symbol senal\<rparr>, ops)
        else if s_tipo senal = ''VENTA'' \<and> pos \<noteq> None \<and> p_symbol (the pos) = s_symbol senal
        then (case py_div (s_precio senal - entrada (the pos)) (entrada (the pos)) of
                Inl e \<Rightarrow> Inl e
              | Inr q \<Rightarrow>
                  Inr (None, ops @ [\<lparr>o_symbol = s_symbol senal, o_entrada = entrada (the pos),
                                     o_salida = s_precio senal,
                                     o_fecha_entrada = fecha_entrada (the pos),
                                     o_fecha_salida = s_datetime senal,
                                     o_rendimiento = q * 100\<rparr>]))
        else Inr (pos, ops))"

fun rendimiento_loop ::
  "senal list \<Rightarrow> posicion option \<times> operacion list \<Rightarrow> py_error + posicion option \<times> operacion list" where
  "rendimiento_loop [] st = Inr st"
| "rendimiento_loop (s # ss) st =
     (case rendimiento_paso st s of Inl e \<Rightarrow> Inl e | Inr st' \<Rightarrow> rendimiento_loop ss st')"

text \<open>
  The divisions by \<^verbatim>\<open>len(operaciones)\<close> are inside \<^verbatim>\<open>if operaciones:\<close>, where
  the length is positive.
\<close>

definition calcular_rendimiento :: "fila list \<Rightarrow> senal list \<Rightarrow> py_error + resumen option" where
  "calcular_rendimiento df senales =
     (if length senales < 2 then Inr None
      else case rendimiento_loop senales (None, []) of
        Inl e \<Rightarrow> Inl e
      | Inr (pos, ops) \<Rightarrow>
          if ops \<noteq> [] then
            (let total = sum_list (map o_rendimiento ops);
                 operaciones_ganadoras = length (filter (\<lambda>op. o_rendimiento op > 0) ops);
                 tasa = real operaciones_ganadoras / real (length ops) * 100
             in Inr (Some \<lparr>operaciones = ops, rendimiento_total = total,
                            num_operaciones = length ops, tasa_acierto = tasa,
                            rendimiento_promedio = total / real (length ops)\<rparr>))
          else Inr None)"

section \<open>Vocabulary of the proofs\<close>


text \<open>
  The times of a run in the order the loop meets them: entry and exit of every closed
  trade, the entry of the open position, and the signals still to be processed.
\<close>

definition linea_tiempo :: "posicion option \<times> operacion list \<Rightarrow> senal list \<Rightarrow> int list" where
  "linea_tiempo st rest =
     concat (map (\<lambda>op. [o_fecha_entrada op, o_fecha_salida op]) (snd st)) @
     (case fst st of None \<Rightarrow> [] | Some p \<Rightarrow> [fecha_entrada p]) @
     map s_datetime rest"

text \<open>
  The win rate in the words of the specification: the number of trades with a positive
  return divided by the number of trades.
\<close>

definition fraccion_ganadoras :: "operacion list \<Rightarrow> real" where
  "fraccion_ganadoras ops =
     real (length (filter (\<lambda>op. o_rendimiento op > 0) ops)) / real (length ops)"

section \<open>Example data\<close>

text \<open>
  TA-Lib's EMA with its default settings: the first \<open>n - 1\<close> values are NaN, the
  value at index \<open>n - 1\<close> is the mean of the first \<open>n\<close> closes, and every later value
  is \<open>(x - prev) * k + prev\<close> with \<open>k = 2 / (n + 1)\<close>. It instantiates the \<open>EMA\<close>
  parameter in the examples.
\<close>

fun ema_rec :: "real \<Rightarrow> real \<Rightarrow> real list \<Rightarrow> serie" where
  "ema_rec k prev [] = []"
| "ema_rec k prev (x # xs) = (let e = (x - prev) * k + prev in Some e # ema_rec k e xs)"

definition talib_EMA :: "real list \<Rightarrow> nat \<Rightarrow> serie" where
  "talib_EMA xs n =
     (if n = 0 \<or> length xs < n then map (\<lambda>_. None) xs
      else (let seed = sum_list (take n xs) / real n
            in replicate (n - 1) None @ Some seed # ema_rec (2 / (real n + 1)) seed (drop n xs)))"

text \<open>
  On a series shorter than 14 bars the RSI and the three MACD outputs are NaN throughout.
\<close>

definition talib_corto :: talib where
  "talib_corto =
     \<lparr>EMA = talib_EMA,
      RSI = (\<lambda>xs n. map (\<lambda>_. None) xs),
      MACD = (\<lambda>xs. (map (\<lambda>_. None) xs, map (\<lambda>_. None) xs, map (\<lambda>_. None) xs))\<rparr>"

text \<open>A bar of \<^verbatim>\<open>WLD/USDT\<close> at time \<open>t\<close> with the given high, low, close and volume.\<close>

definition bar_ej :: "int \<Rightarrow> real \<Rightarrow> real \<Rightarrow> real \<Rightarrow> real \<Rightarrow> bar" where
  "bar_ej t h l c v =
     \<lparr>timestamp = t, open_p = c, high = h, low = l, close = c, volume = v, datetime = t,
      symbol = ''WLD/USDT''\<rparr>"

definition df_ej :: "bar list" where
  "df_ej = [bar_ej 1 10 10 10 1, bar_ej 2 10 10 10 1, bar_ej 3 10 10 10 1,
            bar_ej 4 13 13 13 1, bar_ej 5 7 7 7 1]"

text \<open>The rows that \<^verbatim>\<open>calcular_indicadores\<close> returns for \<open>df_ej\<close> with periods 2 and 3.\<close>

definition filas_ej :: "fila list" where
  "filas_ej =
     [\<lparr>timestamp = 1, open_p = 10, high = 10, low = 10, close = 10, volume = 1, datetime = 1,
       symbol = ''WLD/USDT'', ema_rapida = None, ema_lenta = None, vwap = 10,
       diferencia_emas = None, precio_vs_vwap = Some 0, cruce_alcista_emas = False,
       cruce_bajista_emas = False, precio_sobre_vwap = False, cruce_alcista_vwap = False,
       cruce_bajista_vwap = False, cruce_alcista = False, cruce_bajista = False,
       tendencia = ''NEUTRAL'', rsi = None, macd = None, macd_signal = None, macd_hist = None\<rparr>,
      \<lparr>timestamp = 2, open_p = 10, high = 10, low = 10, close = 10, volume = 1, datetime = 2,
       symbol = ''WLD/USDT'', ema_rapida = Some 10, ema_lenta = None, vwap = 10,
       diferencia_emas = None, precio_vs_vwap = Some 0, cruce_alcista_emas = False,
       cruce_bajista_emas = False, precio_sobre_vwap = False, cruce_alcista_vwap = False,
       cruce_bajista_vwap = False, cruce_alcista = False, cruce_bajista = False,
       tendencia = ''NEUTRAL'', rsi = None, macd = None, macd_signal = None, macd_hist = None\<rparr>,
      \<lparr>timestamp = 3, open_p = 10, high = 10, low = 10, close = 10, volume = 1, datetime = 3,
       symbol = ''WLD/USDT'', ema_rapida = Some 10, ema_lenta = Some 10, vwap = 10,
       diferencia_emas = Some 0, precio_vs_vwap = Some 0, cruce_alcista_emas = False,
       cruce_bajista_emas = False, precio_sobre_vwap = False, cruce_alcista_vwap = False,
       cruce_bajista_vwap = False, cruce_alcista = False, cruce_bajista = False,
       tendencia = ''NEUTRAL'', rsi = None, macd = None, macd_signal = None, macd_hist = None\<rparr>,
      \<lparr>timestamp = 4, open_p = 13, high = 13, low = 13, close = 13, volume = 1, datetime = 4,
       symbol = ''WLD/USDT'', ema_rapida = Some 12, ema_lenta = Some (23 / 2), vwap = 43 / 4,
       diferencia_emas = Some (1 / 2), precio_vs_vwap = Some (900 / 43),
       cruce_alcista_emas = True, cruce_bajista_emas = False, precio_sobre_vwap = True,
       cruce_alcista_vwap = True, cruce_bajista_vwap = False, cruce_alcista = True,
       cruce_bajista = False, tendencia = ''ALCISTA'', rsi = None, macd = None,
       macd_signal = None, macd_hist = None\<rparr>,
      \<lparr>timestamp = 5, open_p = 7, high = 7, low = 7, close = 7, volume = 1, datetime = 5,
       symbol = ''WLD/USDT'', ema_rapida = Some (26 / 3), ema_lenta = Some (37 / 4), vwap = 10,
       diferencia_emas = Some (- (7 / 12)), precio_vs_vwap = Some (- 30),
       cruce_alcista_emas = False, cruce_bajista_emas = True, precio_sobre_vwap = False,
       cruce_alcista_vwap = False, cruce_bajista_vwap = True, cruce_alcista = False,
       cruce_bajista = True, tendencia = ''BAJISTA'', rsi = None, macd = None,
       macd_signal = None, macd_hist = None\<rparr>]"

text \<open>Two bars without traded volume.\<close>

definition df_sin_volumen :: "bar list" where
  "df_sin_volumen = [bar_ej 1 3 1 2 0, bar_ej 2 6 4 5 0]"



text \<open>A signal of the given type, instrument, time and price, with no indicator values.\<close>

definition senal_ej :: "string \<Rightarrow> string \<Rightarrow> int \<Rightarrow> real \<Rightarrow> senal" where
  "senal_ej tipo simbolo t precio =
     \<lparr>s_tipo = tipo, s_symbol = simbolo, s_datetime = t, s_precio = precio, s_ema_rapida = None,
      s_ema_lenta = None, s_vwap = precio, s_precio_vs_vwap = None, s_rsi = None,
      s_macd = None, s_confirmacion = []\<rparr>"

text \<open>Row 3 of \<open>filas_ej\<close> with both combined flags set.\<close>

definition fila_ambas :: fila where
  "fila_ambas = (filas_ej ! 3)\<lparr>cruce_bajista := True\<rparr>"

text \<open>Signal lists for one instrument, and the summaries computed from them.\<close>

definition senales_ej1 :: "senal list" where
  "senales_ej1 = [senal_ej ''COMPRA'' ''X'' 1 100, senal_ej ''COMPRA'' ''X'' 2 90,
                  senal_ej ''VENTA'' ''X'' 3 95]"

definition resumen_ej1 :: resumen where
  "resumen_ej1 =
     \<lparr>operaciones = [\<lparr>o_symbol = ''X'', o_entrada = 100, o_salida = 95, o_fecha_entrada = 1,
                       o_fecha_salida = 3, o_rendimiento = - 5\<rparr>],
      rendimiento_total = - 5, num_operaciones = 1, tasa_acierto = 0,
      rendimiento_promedio = - 5\<rparr>"

definition senales_ej2 :: "senal list" where
  "senales_ej2 = [senal_ej ''COMPRA'' ''X'' 1 100, senal_ej ''COMPRA'' ''X'' 2 90]"

text \<open>A position opened at price zero and closed.\<close>

definition senales_ej3 :: "senal list" where
  "senales_ej3 = [senal_ej ''COMPRA'' ''X'' 1 0, senal_ej ''VENTA'' ''X'' 2 5]"

definition senales_ej4 :: "senal list" where
  "senales_ej4 = [senal_ej ''COMPRA'' ''X'' 1 100, senal_ej ''VENTA'' ''X'' 2 110]"

definition resumen_ej4 :: resumen where
  "resumen_ej4 =
     \<lparr>operaciones = [\<lparr>o_symbol = ''X'', o_entrada = 100, o_salida = 110, o_fecha_entrada = 1,
                       o_fecha_salida = 2, o_rendimiento = 10\<rparr>],
      rendimiento_total = 10, num_operaciones = 1, tasa_acierto = 100,
      rendimiento_promedio = 10\<rparr>"

text \<open>Signals of two instruments interleaved in one list, and the trades closed from them.\<close>

definition senales_ej5 :: "senal list" where
  "senales_ej5 = [senal_ej ''COMPRA'' ''A'' 1 100, senal_ej ''COMPRA'' ''B'' 2 50,
                  senal_ej ''VENTA'' ''B'' 3 55, senal_ej ''VENTA'' ''A'' 4 110,
                  senal_ej ''COMPRA'' ''B'' 5 60, senal_ej ''VENTA'' ''B'' 6 66]"

definition operaciones_ej5 :: "operacion list" where
  "operaciones_ej5 =
     [\<lparr>o_symbol = ''A'', o_entrada = 100, o_salida = 110, o_fecha_entrada = 1,
       o_fecha_salida = 4, o_rendimiento = 10\<rparr>,
      \<lparr>o_symbol = ''B'', o_entrada = 60, o_salida = 66, o_fecha_entrada = 5,
       o_fecha_salida = 6, o_rendimiento = 10\<rparr>]"

section \<open>Properties of calcular_vwap\<close>

lemma vwap_en_Suc:
  "vwap_en (b # bs) cpv cv (Suc i) =
   vwap_en bs (cpv + typical_price b * volume b) (cv + volume b) i"
  by (simp add: vwap_en_def sum.atMost_Suc_shift add.assoc del: sum.atMost_Suc)

lemma vwap_loop_closed:
  "vwap_loop bs cpv cv vs = Inr (vs @ map (vwap_en bs cpv cv) [0..<length bs])"
proof (induction bs arbitrary: cpv cv vs)
  case Nil
  show ?case by simp
next
  case (Cons b bs)
  have split: "map (vwap_en (b # bs) cpv cv) [0..<length (b # bs)] =
      vwap_en (b # bs) cpv cv 0 #
      map (vwap_en bs (cpv + typical_price b * volume b) (cv + volume b)) [0..<length bs]"
    by (simp add: map_upt_Suc vwap_en_Suc del: upt_Suc)
  have head: "vwap_en (b # bs) cpv cv 0 =
      (if cv + volume b > 0 then (cpv + typical_price b * volume b) / (cv + volume b)
       else typical_price b)"
    by (simp add: vwap_en_def)
  show ?case
    unfolding split head
    by (simp add: Let_def py_div_def Cons.IH)
qed

lemma calcular_vwap_closed:
  "calcular_vwap df = Inr (map (vwap_en df 0 0) [0..<length df])"
  by (simp add: calcular_vwap_def vwap_loop_closed)

lemma calcular_vwap_length: "calcular_vwap df = Inr vs \<Longrightarrow> length vs = length df"
  by (auto simp: calcular_vwap_closed)

lemma calcular_vwap_nth:
  "calcular_vwap df = Inr vs \<Longrightarrow> i < length df \<Longrightarrow> vs ! i = vwap_en df 0 0 i"
  by (auto simp: calcular_vwap_closed)

text \<open>
  C4: \<^verbatim>\<open>calcular_vwap\<close> never takes the division-by-zero branch: it returns one value
  per bar for every input. Wherever the cumulative volume over the bars \<open>0..i\<close> is zero,
  the value at index \<open>i\<close> is the typical price \<open>(high + low + close) / 3\<close> of bar \<open>i\<close>;
  a single bar with zero volume yields its own typical price.
\<close>

theorem calcular_vwap_zero_volume:
  "(\<exists>vs. calcular_vwap df = Inr vs \<and> length vs = length df) \<and>
   (calcular_vwap df = Inr vs \<longrightarrow> i < length df \<longrightarrow> (\<Sum>j\<le>i. volume (df ! j)) = 0 \<longrightarrow>
      vs ! i = (high (df ! i) + low (df ! i) + close (df ! i)) / 3) \<and>
   (volume b = 0 \<longrightarrow> calcular_vwap [b] = Inr [(high b + low b + close b) / 3])"
proof (intro conjI impI)
  show "\<exists>vs. calcular_vwap df = Inr vs \<and> length vs = length df"
    by (simp add: calcular_vwap_closed)
next
  assume "calcular_vwap df = Inr vs" "i < length df" "(\<Sum>j\<le>i. volume (df ! j)) = 0"
  then show "vs ! i = (high (df ! i) + low (df ! i) + close (df ! i)) / 3"
    by (simp add: calcular_vwap_nth vwap_en_def typical_price_def)
next
  assume "volume b = 0"
  then show "calcular_vwap [b] = Inr [(high b + low b + close b) / 3]"
    by (simp add: calcular_vwap_def typical_price_def)
qed

theorem calcular_vwap_zero_volume_witness:
  "calcular_vwap df_sin_volumen = Inr [2, 5] \<and> 1 < length df_sin_volumen \<and>
   (\<Sum>j\<le>1. volume (df_sin_volumen ! j)) = 0 \<and>
   [2, 5 :: real] ! 1 =
     (high (df_sin_volumen ! 1) + low (df_sin_volumen ! 1) + close (df_sin_volumen ! 1)) / 3 \<and>
   volume (bar_ej 1 3 1 2 0) = 0 \<and>
   calcular_vwap [bar_ej 1 3 1 2 0] =
     Inr [(high (bar_ej 1 3 1 2 0) + low (bar_ej 1 3 1 2 0) + close (bar_ej 1 3 1 2 0)) / 3]"
proof -
  have h1: "calcular_vwap df_sin_volumen = Inr [2, 5]" by code_simp
  have h2: "1 < length df_sin_volumen" by (simp add: df_sin_volumen_def)
  have h3: "(\<Sum>j\<le>1. volume (df_sin_volumen ! j)) = 0"
    by (simp add: df_sin_volumen_def bar_ej_def)
  have h4: "volume (bar_ej 1 3 1 2 0) = 0" by (simp add: bar_ej_def)
  show ?thesis
    using calcular_vwap_zero_volume [of df_sin_volumen "[2, 5]" 1 "bar_ej 1 3 1 2 0"] h1 h2 h3 h4
    by simp
qed

subsection \<open>The average stays between the extreme typical prices\<close>






subsection \<open>Rounding to binary64\<close>

text \<open>
  \<open>exponente\<close> is the binary exponent of its argument, and \<open>f64\<close> moves a number by
  at most half a unit in the last of its 53 bits.
\<close>

lemma pow2_nat: "pow2 (int n) = 2 ^ n"
  by (simp add: pow2_def)

lemma pow2_neg: "pow2 (- int n) = 1 / 2 ^ n"
  by (auto simp: pow2_def)

lemma floorlog_real_bounds:
  fixes a :: real
  assumes "1 \<le> a"
  defines "n \<equiv> floorlog 2 (nat \<lfloor>a\<rfloor>)"
  shows "0 < n" "2 ^ (n - 1) \<le> a" "a < 2 ^ n"
proof -
  let ?m = "nat \<lfloor>a\<rfloor>"
  have m: "0 < ?m" using assms by simp
  from floorlog_bounds [OF m, of 2] have b: "2 ^ (n - 1) \<le> ?m" "?m < 2 ^ n"
    by (simp_all add: n_def)
  show "0 < n" using m by (simp add: n_def floorlog_def)
  have "real (2 ^ (n - 1)) \<le> real ?m" using b(1) by (rule iffD2 [OF of_nat_le_iff])
  also have "real ?m \<le> a" using assms by (simp add: of_nat_nat)
  finally show "2 ^ (n - 1) \<le> a" by simp
  have "?m + 1 \<le> 2 ^ n" using b(2) by linarith
  then have "real (?m + 1) \<le> real (2 ^ n)" by (rule iffD2 [OF of_nat_le_iff])
  moreover have "a < real (?m + 1)" using assms by (simp add: of_nat_nat) linarith
  ultimately show "a < 2 ^ n" by simp
qed

lemma exponente_bounds:
  assumes "x \<noteq> 0"
  shows "pow2 (exponente x) \<le> \<bar>x\<bar> \<and> \<bar>x\<bar> < pow2 (exponente x + 1)"
proof (cases "1 \<le> \<bar>x\<bar>")
  case True
  define n where "n = floorlog 2 (nat \<lfloor>\<bar>x\<bar>\<rfloor>)"
  from floorlog_real_bounds [OF True] have b: "0 < n" "2 ^ (n - 1) \<le> \<bar>x\<bar>" "\<bar>x\<bar> < 2 ^ n"
    by (simp_all add: n_def)
  have e: "exponente x = int (n - 1)" using True b(1) by (simp add: exponente_def n_def of_nat_diff)
  have e1: "exponente x + 1 = int n" using e b(1) by simp
  have "pow2 (exponente x) = 2 ^ (n - 1)" by (simp only: e pow2_nat)
  moreover have "pow2 (exponente x + 1) = 2 ^ n" by (simp only: e1 pow2_nat)
  ultimately show ?thesis using b by simp
next
  case False
  define a where "a = \<bar>x\<bar>"
  have a: "0 < a" "a < 1" using assms False by (simp_all add: a_def)
  then have inv: "1 \<le> 1 / a" by simp
  define n where "n = floorlog 2 (nat \<lfloor>1 / a\<rfloor>)"
  from floorlog_real_bounds [OF inv] have b: "0 < n" "2 ^ (n - 1) \<le> 1 / a" "1 / a < 2 ^ n"
    by (simp_all add: n_def)
  define k where "k = n - 1"
  have n: "n = Suc k" using b(1) by (simp add: k_def)
  have ik: "int (floorlog 2 (nat \<lfloor>1 / a\<rfloor>)) - 1 = int k"
    using b(1) by (simp add: n_def[symmetric] k_def of_nat_diff)
  have up: "a * 2 ^ k \<le> 1" using b(2) a(1) by (simp add: k_def field_simps)
  have lo: "1 < a * 2 ^ Suc k" using b(3) a(1) unfolding n by (simp add: field_simps)
  show ?thesis
  proof (cases "a * 2 ^ k = 1")
    case True
    then have e: "exponente x = - int k"
      using False by (simp add: exponente_def a_def[symmetric] ik Let_def pow2_nat)
    have "a = 1 / 2 ^ k" using True by (simp add: field_simps)
    moreover have "pow2 (exponente x) = 1 / 2 ^ k" by (simp only: e pow2_neg)
    moreover have "pow2 (exponente x + 1) = 2 * (1 / 2 ^ k)"
    proof (cases k)
      case 0
      then show ?thesis by (simp add: e pow2_def)
    next
      case (Suc j)
      then have "exponente x + 1 = - int j" by (simp add: e)
      then show ?thesis by (simp only: pow2_neg) (simp add: Suc)
    qed
    moreover have "1 / 2 ^ k < 2 * (1 / (2::real) ^ k)"
    proof -
      have "0 < 1 / (2::real) ^ k" by simp
      then show ?thesis by linarith
    qed
    ultimately have "pow2 (exponente x) \<le> a \<and> a < pow2 (exponente x + 1)" by simp
    then show ?thesis by (simp only: a_def)
  next
    case ne: False
    then have e: "exponente x = - int (Suc k)"
      using False by (simp add: exponente_def a_def[symmetric] ik Let_def pow2_nat)
    have e1: "exponente x + 1 = - int k" using e by simp
    have "1 / 2 ^ Suc k < a" using lo by (simp add: field_simps)
    moreover have "a < 1 / 2 ^ k" using up ne by (simp add: field_simps)
    moreover have "pow2 (exponente x) = 1 / 2 ^ Suc k" by (simp only: e pow2_neg)
    moreover have "pow2 (exponente x + 1) = 1 / 2 ^ k" by (simp only: e1 pow2_neg)
    ultimately have "pow2 (exponente x) \<le> a \<and> a < pow2 (exponente x + 1)" by simp
    then show ?thesis by (simp only: a_def)
  qed
qed

lemma pow2_pos: "0 < pow2 k"
  by (simp add: pow2_def)

lemma redondeo_par_cerca: "\<bar>of_int (redondeo_par q) - q\<bar> \<le> 1 / 2"
proof -
  have "of_int \<lfloor>q\<rfloor> \<le> q" "q < of_int \<lfloor>q\<rfloor> + 1" by linarith+
  then show ?thesis by (auto simp: redondeo_par_def Let_def)
qed

lemma f64_cerca:
  "\<bar>f64 x - x\<bar> \<le> pow2 (exponente x - 52) / 2"
proof (cases "x = 0")
  case True
  then show ?thesis using pow2_pos [of "exponente x - 52"] by (simp add: f64_def)
next
  case False
  define u where "u = pow2 (exponente x - 52)"
  have u: "0 < u" by (simp add: u_def pow2_pos)
  have "f64 x - x = (of_int (redondeo_par (x / u)) - x / u) * u"
    using False u by (simp add: f64_def u_def[symmetric] Let_def field_simps)
  then have "\<bar>f64 x - x\<bar> = \<bar>of_int (redondeo_par (x / u)) - x / u\<bar> * u"
    using u by (simp add: abs_mult)
  also have "\<dots> \<le> (1 / 2) * u"
    using redondeo_par_cerca [of "x / u"] u by (simp add: mult_right_mono)
  finally show ?thesis by (simp add: u_def)
qed


section \<open>Properties of calcular_indicadores\<close>

lemma shift_length [simp]: "length (shift n xs) = length xs"
  by (simp add: shift_def)

lemma shift_1_nth:
  "i < length xs \<Longrightarrow> shift (Suc 0) xs ! i = (if i = 0 then None else xs ! (i - 1))"
  by (cases i) (simp_all add: shift_def)

lemma serie_lengths [simp]:
  "length (serie_gt xs ys) = min (length xs) (length ys)"
  "length (serie_lt xs ys) = min (length xs) (length ys)"
  "length (serie_ge xs ys) = min (length xs) (length ys)"
  "length (serie_le xs ys) = min (length xs) (length ys)"
  "length (serie_and bs cs) = min (length bs) (length cs)"
  "length (serie_not bs) = length bs"
  by (simp_all add: serie_gt_def serie_lt_def serie_ge_def serie_le_def serie_and_def serie_not_def)

lemma serie_nth:
  "i < length xs \<Longrightarrow> i < length ys \<Longrightarrow> serie_gt xs ys ! i = nan_gt (xs ! i) (ys ! i)"
  "i < length xs \<Longrightarrow> i < length ys \<Longrightarrow> serie_lt xs ys ! i = nan_lt (xs ! i) (ys ! i)"
  "i < length xs \<Longrightarrow> i < length ys \<Longrightarrow> serie_ge xs ys ! i = nan_ge (xs ! i) (ys ! i)"
  "i < length xs \<Longrightarrow> i < length ys \<Longrightarrow> serie_le xs ys ! i = nan_le (xs ! i) (ys ! i)"
  "i < length bs \<Longrightarrow> i < length cs \<Longrightarrow> serie_and bs cs ! i = (bs ! i \<and> cs ! i)"
  "i < length bs \<Longrightarrow> serie_not bs ! i = (\<not> bs ! i)"
  by (simp_all add: serie_gt_def serie_lt_def serie_ge_def serie_le_def serie_and_def serie_not_def)

lemma np_where_tendencia_nth:
  "i < length as \<Longrightarrow> i < length bs \<Longrightarrow>
   np_where_tendencia as bs ! i =
     (if as ! i then ''ALCISTA'' else if bs ! i then ''BAJISTA'' else ''NEUTRAL'')"
  by (simp add: np_where_tendencia_def)

lemma nan_Some [simp]:
  "nan_gt (Some x) (Some y) = (x > y)" "nan_lt (Some x) (Some y) = (x < y)"
  "nan_ge (Some x) (Some y) = (x \<ge> y)" "nan_le (Some x) (Some y) = (x \<le> y)"
  by (simp_all add: nan_gt_def nan_lt_def nan_ge_def nan_le_def)

lemma nan_None [simp]:
  "\<not> nan_gt None b" "\<not> nan_gt a None" "\<not> nan_lt None b" "\<not> nan_lt a None"
  "\<not> nan_ge None b" "\<not> nan_ge a None" "\<not> nan_le None b" "\<not> nan_le a None"
  by (simp_all add: nan_gt_def nan_lt_def nan_ge_def nan_le_def split: option.splits)

lemma calcular_indicadores_Inr:
  assumes "calcular_indicadores ta pr pl df = Inr filas"
  obtains vs c_macd c_macd_signal c_macd_hist where
    "calcular_vwap df = Inr vs"
    "length (EMA ta (map close df) pr) = length df"
    "length (EMA ta (map close df) pl) = length df"
    "filas = map (fila_en df (EMA ta (map close df) pr) (EMA ta (map close df) pl) vs
                   (RSI ta (map close df) 14) c_macd c_macd_signal c_macd_hist) [0..<length df]"
  using assms
  by (auto simp: calcular_indicadores_def Let_def split: if_splits sum.splits prod.splits)

lemma fila_en_fields:
  assumes "i < length df" "length er = length df" "length el = length df" "length vs = length df"
  shows "close (fila_en df er el vs r m s h i) = close (df ! i)"
    and "ema_rapida (fila_en df er el vs r m s h i) = er ! i"
    and "ema_lenta (fila_en df er el vs r m s h i) = el ! i"
    and "vwap (fila_en df er el vs r m s h i) = vs ! i"
    and "precio_sobre_vwap (fila_en df er el vs r m s h i) = (close (df ! i) > vs ! i)"
    and "cruce_alcista_emas (fila_en df er el vs r m s h i) =
          (nan_gt (er ! i) (el ! i) \<and> 0 < i \<and> nan_le (er ! (i - 1)) (el ! (i - 1)))"
    and "cruce_bajista_emas (fila_en df er el vs r m s h i) =
          (nan_lt (er ! i) (el ! i) \<and> 0 < i \<and> nan_ge (er ! (i - 1)) (el ! (i - 1)))"
    and "cruce_alcista_vwap (fila_en df er el vs r m s h i) =
          (close (df ! i) > vs ! i \<and> 0 < i \<and> close (df ! (i - 1)) \<le> vs ! (i - 1))"
    and "cruce_bajista_vwap (fila_en df er el vs r m s h i) =
          (close (df ! i) < vs ! i \<and> 0 < i \<and> close (df ! (i - 1)) \<ge> vs ! (i - 1))"
  using assms
  by (auto simp add: fila_en_def Let_def serie_nth shift_1_nth)

lemma fila_en_combinadas:
  assumes "i < length df" "length er = length df" "length el = length df" "length vs = length df"
  shows "cruce_alcista (fila_en df er el vs r m s h i) =
          (cruce_alcista_emas (fila_en df er el vs r m s h i) \<and>
           precio_sobre_vwap (fila_en df er el vs r m s h i))"
    and "cruce_bajista (fila_en df er el vs r m s h i) =
          (cruce_bajista_emas (fila_en df er el vs r m s h i) \<and>
           \<not> precio_sobre_vwap (fila_en df er el vs r m s h i))"
    and "tendencia (fila_en df er el vs r m s h i) =
          (if nan_gt (er ! i) (el ! i) \<and> close (df ! i) > vs ! i then ''ALCISTA''
           else if nan_lt (er ! i) (el ! i) \<and> close (df ! i) < vs ! i then ''BAJISTA''
           else ''NEUTRAL'')"
  using assms
  by (simp_all add: fila_en_def Let_def serie_nth np_where_tendencia_nth)

lemma calcular_indicadores_ej: "calcular_indicadores talib_corto 2 3 df_ej = Inr filas_ej"
  by code_simp

lemma calcular_indicadores_nth:
  assumes "calcular_indicadores ta pr pl df = Inr filas" "i < length df"
  obtains vs c_macd c_macd_signal c_macd_hist where
    "length vs = length df"
    "length (EMA ta (map close df) pr) = length df"
    "length (EMA ta (map close df) pl) = length df"
    "length filas = length df"
    "filas ! i = fila_en df (EMA ta (map close df) pr) (EMA ta (map close df) pl) vs
                   (RSI ta (map close df) 14) c_macd c_macd_signal c_macd_hist i"
proof -
  from assms(1) obtain vs m s h where
    v: "calcular_vwap df = Inr vs"
    and l1: "length (EMA ta (map close df) pr) = length df"
    and l2: "length (EMA ta (map close df) pl) = length df"
    and f: "filas = map (fila_en df (EMA ta (map close df) pr) (EMA ta (map close df) pl) vs
                   (RSI ta (map close df) 14) m s h) [0..<length df]"
    by (rule calcular_indicadores_Inr)
  have "length vs = length df" using v by (auto simp: calcular_vwap_closed)
  moreover have "length filas = length df" using f by simp
  moreover have "filas ! i = fila_en df (EMA ta (map close df) pr) (EMA ta (map close df) pl) vs
                   (RSI ta (map close df) 14) m s h i"
    using f assms(2) by simp
  ultimately show ?thesis using l1 l2 that by blast
qed

text \<open>
  C6: on a non-empty bar sequence, none of the four crossover flags (bullish and bearish
  EMA cross, bullish and bearish price-against-VWAP cross) is true at index 0: the
  shifted columns hold NaN there, and a comparison with NaN is false.
\<close>

theorem no_cruce_en_indice_0:
  assumes "calcular_indicadores ta per_rapida per_lenta df = Inr filas" "df \<noteq> []"
  shows "filas \<noteq> [] \<and>
         \<not> cruce_alcista_emas (filas ! 0) \<and> \<not> cruce_bajista_emas (filas ! 0) \<and>
         \<not> cruce_alcista_vwap (filas ! 0) \<and> \<not> cruce_bajista_vwap (filas ! 0)"
proof -
  have pos: "0 < length df" using assms(2) by simp
  from assms(1) pos obtain vs m s h where
    l: "length vs = length df" "length (EMA ta (map close df) per_rapida) = length df"
       "length (EMA ta (map close df) per_lenta) = length df"
    and n: "length filas = length df"
    and f: "filas ! 0 = fila_en df (EMA ta (map close df) per_rapida)
              (EMA ta (map close df) per_lenta) vs (RSI ta (map close df) 14) m s h 0"
    by (rule calcular_indicadores_nth)
  have "filas \<noteq> []" using n pos by auto
  then show ?thesis
    unfolding f using pos l by (simp add: fila_en_fields)
qed

theorem no_cruce_en_indice_0_witness:
  "calcular_indicadores talib_corto 2 3 df_ej = Inr filas_ej \<and> df_ej \<noteq> [] \<and> filas_ej \<noteq> [] \<and>
   \<not> cruce_alcista_emas (filas_ej ! 0) \<and> \<not> cruce_bajista_emas (filas_ej ! 0) \<and>
   \<not> cruce_alcista_vwap (filas_ej ! 0) \<and> \<not> cruce_bajista_vwap (filas_ej ! 0)"
proof -
  have h2: "df_ej \<noteq> []" by (simp add: df_ej_def)
  show ?thesis
    using no_cruce_en_indice_0 [OF calcular_indicadores_ej h2] calcular_indicadores_ej h2
    by simp
qed

text \<open>
  C7: at every index the combined flags \<^verbatim>\<open>cruce_alcista\<close> and
  \<^verbatim>\<open>cruce_bajista\<close> are not both true. The bullish flag needs the close above the
  VWAP and the fast EMA above the slow one; the bearish flag needs the close not above
  the VWAP and the fast EMA below the slow one.
\<close>

theorem cruces_combinados_excluyentes:
  assumes "calcular_indicadores ta per_rapida per_lenta df = Inr filas" "i < length filas"
  shows "\<not> (cruce_alcista (filas ! i) \<and> cruce_bajista (filas ! i)) \<and>
         (cruce_alcista (filas ! i) \<longrightarrow>
            close (filas ! i) > vwap (filas ! i) \<and>
            nan_gt (ema_rapida (filas ! i)) (ema_lenta (filas ! i))) \<and>
         (cruce_bajista (filas ! i) \<longrightarrow>
            \<not> close (filas ! i) > vwap (filas ! i) \<and>
            nan_lt (ema_rapida (filas ! i)) (ema_lenta (filas ! i)))"
proof -
  have i: "i < length df"
    using assms by (auto elim: calcular_indicadores_Inr)
  from assms(1) i obtain vs m s h where
    l: "length vs = length df" "length (EMA ta (map close df) per_rapida) = length df"
       "length (EMA ta (map close df) per_lenta) = length df"
    and f: "filas ! i = fila_en df (EMA ta (map close df) per_rapida)
              (EMA ta (map close df) per_lenta) vs (RSI ta (map close df) 14) m s h i"
    by (rule calcular_indicadores_nth)
  show ?thesis
    unfolding f using i l by (simp add: fila_en_combinadas fila_en_fields)
qed

theorem cruces_combinados_excluyentes_witness:
  "calcular_indicadores talib_corto 2 3 df_ej = Inr filas_ej \<and> 3 < length filas_ej \<and>
   cruce_alcista (filas_ej ! 3) \<and> \<not> cruce_bajista (filas_ej ! 3) \<and>
   close (filas_ej ! 3) > vwap (filas_ej ! 3) \<and>
   nan_gt (ema_rapida (filas_ej ! 3)) (ema_lenta (filas_ej ! 3))"
proof -
  have h2: "3 < length filas_ej" by (simp add: filas_ej_def)
  have h3: "cruce_alcista (filas_ej ! 3)" by (simp add: filas_ej_def)
  show ?thesis
    using cruces_combinados_excluyentes [OF calcular_indicadores_ej h2] calcular_indicadores_ej h2 h3
    by simp
qed

text \<open>
  C8: at every index where the fast or the slow EMA is NaN, the trend computed by
  \<^verbatim>\<open>calcular_indicadores\<close> is \<^verbatim>\<open>NEUTRAL\<close>.
\<close>

theorem tendencia_neutral_sin_ema:
  assumes "calcular_indicadores ta per_rapida per_lenta df = Inr filas" "i < length filas"
    and "EMA ta (map close df) per_rapida ! i = None \<or> EMA ta (map close df) per_lenta ! i = None"
  shows "tendencia (filas ! i) = ''NEUTRAL'' \<and>
         ema_rapida (filas ! i) = EMA ta (map close df) per_rapida ! i \<and>
         ema_lenta (filas ! i) = EMA ta (map close df) per_lenta ! i"
proof -
  have i: "i < length df"
    using assms by (auto elim: calcular_indicadores_Inr)
  from assms(1) i obtain vs m s h where
    l: "length vs = length df" "length (EMA ta (map close df) per_rapida) = length df"
       "length (EMA ta (map close df) per_lenta) = length df"
    and f: "filas ! i = fila_en df (EMA ta (map close df) per_rapida)
              (EMA ta (map close df) per_lenta) vs (RSI ta (map close df) 14) m s h i"
    by (rule calcular_indicadores_nth)
  show ?thesis
    unfolding f using i l assms(3) by (auto simp add: fila_en_combinadas fila_en_fields)
qed

theorem tendencia_neutral_sin_ema_witness:
  "calcular_indicadores talib_corto 2 3 df_ej = Inr filas_ej \<and> 1 < length filas_ej \<and>
   EMA talib_corto (map close df_ej) 2 ! 1 = Some 10 \<and>
   EMA talib_corto (map close df_ej) 3 ! 1 = None \<and>
   tendencia (filas_ej ! 1) = ''NEUTRAL''"
proof -
  have h2: "1 < length filas_ej" by (simp add: filas_ej_def)
  have h3: "EMA talib_corto (map close df_ej) 3 ! 1 = None" by code_simp
  have h4: "EMA talib_corto (map close df_ej) 2 ! 1 = Some 10" by code_simp
  show ?thesis
    using tendencia_neutral_sin_ema [OF calcular_indicadores_ej h2 disjI2 [OF h3]]
      calcular_indicadores_ej h2 h3 h4
    by simp
qed

section \<open>Properties of generar_senales\<close>

lemma senales_loop_concat:
  "senales_loop fs acc = acc @ concat (map senales_de_fila fs)"
  by (induction fs arbitrary: acc) (simp_all add: senales_de_fila_def)

lemma concat_map_indices:
  "concat (map (\<lambda>x. if P x then [g x] else []) xs) =
   map (\<lambda>i. g (xs ! i)) (filter (\<lambda>i. P (xs ! i)) [0..<length xs])"
proof (induction xs rule: rev_induct)
  case Nil
  show ?case by simp
next
  case (snoc x xs)
  have f: "filter (\<lambda>i. P ((xs @ [x]) ! i)) [0..<length xs] = filter (\<lambda>i. P (xs ! i)) [0..<length xs]"
    by (rule filter_cong) (simp_all add: nth_append)
  have m: "map (\<lambda>i. g ((xs @ [x]) ! i)) (filter (\<lambda>i. P (xs ! i)) [0..<length xs]) =
           map (\<lambda>i. g (xs ! i)) (filter (\<lambda>i. P (xs ! i)) [0..<length xs])"
    by (rule map_cong) (simp_all add: nth_append)
  show ?case
    by (simp add: snoc.IH f m)
qed

lemma senales_de_fila_alt:
  "senales_de_fila f =
     (if cruce_alcista f \<or> cruce_bajista f
      then [if cruce_alcista f then senal_compra f else senal_venta f] else [])"
  by (simp add: senales_de_fila_def)

lemma generar_senales_indices:
  "generar_senales df =
     map (\<lambda>i. if cruce_alcista (df ! i) then senal_compra (df ! i) else senal_venta (df ! i))
       (filter (\<lambda>i. cruce_alcista (df ! i) \<or> cruce_bajista (df ! i)) [0..<length df])"
proof -
  have "generar_senales df =
        concat (map (\<lambda>f. if cruce_alcista f \<or> cruce_bajista f
                           then [if cruce_alcista f then senal_compra f else senal_venta f]
                           else []) df)"
    by (simp add: generar_senales_def senales_loop_concat senales_de_fila_alt[abs_def])
  then show ?thesis by (simp only: concat_map_indices)
qed

lemma sorted_map_filter_upt:
  assumes "sorted (map (datetime :: fila \<Rightarrow> int) df)"
  shows "sorted (map (\<lambda>i. datetime (df ! i)) (filter Q [0..<length df]))"
proof -
  have "sorted_wrt (\<lambda>i j. datetime (df ! i) \<le> datetime (df ! j)) [0..<length df]"
    using assms by (auto simp: sorted_wrt_iff_nth_less sorted_iff_nth_mono)
  then have "sorted_wrt (\<lambda>i j. datetime (df ! i) \<le> datetime (df ! j)) (filter Q [0..<length df])"
    by (rule sorted_wrt_filter)
  then show ?thesis by (simp add: sorted_wrt_map)
qed

text \<open>
  C9: \<^verbatim>\<open>generar_senales\<close> visits the rows in ascending index order and emits at most
  one signal per row: a \<^verbatim>\<open>COMPRA\<close> where the combined bullish flag is set, otherwise a
  \<^verbatim>\<open>VENTA\<close> where the combined bearish flag is set, nothing where neither is set. A row
  with both flags set gives the \<^verbatim>\<open>COMPRA\<close> only. The signals carry the time of their
  row, so they are in the order of the rows.
\<close>

theorem generar_senales_una_por_barra:
  "generar_senales df =
     map (\<lambda>i. if cruce_alcista (df ! i) then senal_compra (df ! i) else senal_venta (df ! i))
       (filter (\<lambda>i. cruce_alcista (df ! i) \<or> cruce_bajista (df ! i)) [0..<length df]) \<and>
   s_tipo (senal_compra f) = ''COMPRA'' \<and> s_tipo (senal_venta f) = ''VENTA'' \<and>
   s_datetime (senal_compra f) = datetime f \<and> s_datetime (senal_venta f) = datetime f \<and>
   (cruce_alcista f \<and> cruce_bajista f \<longrightarrow> generar_senales [f] = [senal_compra f]) \<and>
   length (generar_senales df) \<le> length df \<and>
   (sorted (map datetime df) \<longrightarrow> sorted (map s_datetime (generar_senales df)))"
proof (intro conjI impI)
  show "generar_senales df =
     map (\<lambda>i. if cruce_alcista (df ! i) then senal_compra (df ! i) else senal_venta (df ! i))
       (filter (\<lambda>i. cruce_alcista (df ! i) \<or> cruce_bajista (df ! i)) [0..<length df])"
    by (rule generar_senales_indices)
  show "s_tipo (senal_compra f) = ''COMPRA''" by (simp add: senal_compra_def)
  show "s_tipo (senal_venta f) = ''VENTA''" by (simp add: senal_venta_def)
  show "s_datetime (senal_compra f) = datetime f" by (simp add: senal_compra_def)
  show "s_datetime (senal_venta f) = datetime f" by (simp add: senal_venta_def)
  show "generar_senales [f] = [senal_compra f]" if "cruce_alcista f \<and> cruce_bajista f"
    using that by (simp add: generar_senales_def)
  have "length (generar_senales df) \<le> length [0..<length df]"
    unfolding generar_senales_indices length_map by (rule length_filter_le)
  then show "length (generar_senales df) \<le> length df" by simp
  show "sorted (map s_datetime (generar_senales df))" if "sorted (map datetime df)"
  proof -
    have "map s_datetime (generar_senales df) =
          map (\<lambda>i. datetime (df ! i))
            (filter (\<lambda>i. cruce_alcista (df ! i) \<or> cruce_bajista (df ! i)) [0..<length df])"
      unfolding generar_senales_indices
      by (simp add: senal_compra_def senal_venta_def if_distrib [of s_datetime] cong: if_cong)
    then show ?thesis using sorted_map_filter_upt [OF that] by simp
  qed
qed

theorem generar_senales_una_por_barra_witness:
  "cruce_alcista fila_ambas \<and> cruce_bajista fila_ambas \<and>
   generar_senales [fila_ambas] = [senal_compra fila_ambas] \<and>
   sorted (map datetime filas_ej) \<and>
   generar_senales filas_ej = [senal_compra (filas_ej ! 3), senal_venta (filas_ej ! 4)] \<and>
   sorted (map s_datetime (generar_senales filas_ej))"
proof -
  have h1: "cruce_alcista fila_ambas \<and> cruce_bajista fila_ambas"
    by (simp add: fila_ambas_def filas_ej_def)
  have h2: "sorted (map datetime filas_ej)" by (simp add: filas_ej_def)
  have h3: "generar_senales filas_ej = [senal_compra (filas_ej ! 3), senal_venta (filas_ej ! 4)]"
    by (simp add: generar_senales_def filas_ej_def)
  note t = generar_senales_una_por_barra [of filas_ej fila_ambas]
  have a: "generar_senales [fila_ambas] = [senal_compra fila_ambas]" using t h1 by blast
  have b: "sorted (map s_datetime (generar_senales filas_ej))" using t h2 by blast
  show ?thesis using h1 h2 h3 a b by blast
qed

section \<open>Properties of calcular_rendimiento\<close>

lemma paso_compra_abierta:
  "s_tipo s = ''COMPRA'' \<Longrightarrow> rendimiento_paso (Some p, ops) s = Inr (Some p, ops)"
  by (simp add: rendimiento_paso_def)

lemma paso_compra_libre:
  "s_tipo s = ''COMPRA'' \<Longrightarrow>
   rendimiento_paso (None, ops) s =
     Inr (Some \<lparr>entrada = s_precio s, fecha_entrada = s_datetime s, p_symbol = s_symbol s\<rparr>, ops)"
  by (simp add: rendimiento_paso_def)

lemma paso_libre_otro:
  "s_tipo s \<noteq> ''COMPRA'' \<Longrightarrow> rendimiento_paso (None, ops) s = Inr (None, ops)"
  by (simp add: rendimiento_paso_def)

lemma paso_otro_simbolo:
  "s_symbol s \<noteq> p_symbol p \<Longrightarrow> rendimiento_paso (Some p, ops) s = Inr (Some p, ops)"
  by (auto simp add: rendimiento_paso_def)

lemma paso_venta_cierra:
  "s_tipo s = ''VENTA'' \<Longrightarrow> s_symbol s = p_symbol p \<Longrightarrow> entrada p \<noteq> 0 \<Longrightarrow>
   rendimiento_paso (Some p, ops) s =
     Inr (None, ops @ [\<lparr>o_symbol = s_symbol s, o_entrada = entrada p, o_salida = s_precio s,
                         o_fecha_entrada = fecha_entrada p, o_fecha_salida = s_datetime s,
                         o_rendimiento = (s_precio s - entrada p) / entrada p * 100\<rparr>])"
  by (simp add: rendimiento_paso_def py_div_def)

lemma paso_venta_cero:
  "s_tipo s = ''VENTA'' \<Longrightarrow> s_symbol s = p_symbol p \<Longrightarrow> entrada p = 0 \<Longrightarrow>
   rendimiento_paso (Some p, ops) s = Inl ZeroDivisionError"
  by (simp add: rendimiento_paso_def py_div_def)

text \<open>Every way a step can return, as a case rule.\<close>

lemma paso_cases:
  assumes "rendimiento_paso (pos, ops) s = Inr (pos', ops')"
  obtains
    (abre) "pos = None" "s_tipo s = ''COMPRA''" "ops' = ops"
      "pos' = Some \<lparr>entrada = s_precio s, fecha_entrada = s_datetime s, p_symbol = s_symbol s\<rparr>"
  | (cierra) p where "pos = Some p" "s_tipo s = ''VENTA''" "s_symbol s = p_symbol p"
      "entrada p \<noteq> 0" "pos' = None"
      "ops' = ops @ [\<lparr>o_symbol = s_symbol s, o_entrada = entrada p, o_salida = s_precio s,
                         o_fecha_entrada = fecha_entrada p, o_fecha_salida = s_datetime s,
                         o_rendimiento = (s_precio s - entrada p) / entrada p * 100\<rparr>]"
  | (ignora) "pos' = pos" "ops' = ops"
      "pos = None \<longrightarrow> s_tipo s \<noteq> ''COMPRA''"
      "\<And>p. pos = Some p \<Longrightarrow> s_tipo s \<noteq> ''VENTA'' \<or> s_symbol s \<noteq> p_symbol p"
  using assms
  by (cases pos) (auto simp: rendimiento_paso_def py_div_def split: if_splits)

lemma rendimiento_loop_append:
  "rendimiento_loop (xs @ ys) st =
     (case rendimiento_loop xs st of Inl e \<Rightarrow> Inl e | Inr st' \<Rightarrow> rendimiento_loop ys st')"
  by (induction xs arbitrary: st) (simp_all split: sum.splits)



text \<open>Two signals at least are consumed for every trade that is closed.\<close>

lemma loop_cuenta:
  "rendimiento_loop ss (pos, ops) = Inr (pos', ops') \<Longrightarrow>
   2 * length ops' + (if pos' = None then 0 else 1) \<le>
   2 * length ops + (if pos = None then 0 else 1) + length ss"
proof (induction ss arbitrary: pos ops)
  case Nil
  then show ?case by simp
next
  case (Cons s ss)
  from Cons.prems(1) obtain pos1 ops1 where
    p: "rendimiento_paso (pos, ops) s = Inr (pos1, ops1)"
    and l: "rendimiento_loop ss (pos1, ops1) = Inr (pos', ops')"
    by (auto split: sum.splits)
  from p have "2 * length ops1 + (if pos1 = None then 0 else 1) \<le>
               2 * length ops + (if pos = None then 0 else 1) + 1"
    by (cases rule: paso_cases) simp_all
  with Cons.IH [OF l] show ?case by simp
qed

lemma loop_menos_de_dos:
  assumes "length ss < 2"
  shows "\<exists>pos. rendimiento_loop ss (None, []) = Inr (pos, [])"
proof (cases ss)
  case Nil
  then show ?thesis by simp
next
  case (Cons s ss')
  with assms have "ss = [s]" by simp
  then show ?thesis
    by (cases "s_tipo s = ''COMPRA''") (simp_all add: paso_compra_libre paso_libre_otro)
qed

lemma sorted_quitar:
  "sorted (xs @ y # ys) \<Longrightarrow> sorted (xs @ (ys :: int list))"
  by (auto simp: sorted_append)

lemma paso_linea_tiempo:
  assumes "rendimiento_paso (pos, ops) s = Inr (pos', ops')"
    and "sorted (linea_tiempo (pos, ops) (s # ss))"
  shows "sorted (linea_tiempo (pos', ops') ss)"
  using assms(1)
proof (cases rule: paso_cases)
  case abre
  with assms(2) show ?thesis by (simp add: linea_tiempo_def)
next
  case (cierra p)
  with assms(2) show ?thesis by (simp add: linea_tiempo_def)
next
  case ignora
  have "sorted ((concat (map (\<lambda>op. [o_fecha_entrada op, o_fecha_salida op]) ops) @
          (case pos of None \<Rightarrow> [] | Some p \<Rightarrow> [fecha_entrada p])) @ map s_datetime ss)"
    by (rule sorted_quitar [where y = "s_datetime s"]) (use assms(2) in \<open>simp add: linea_tiempo_def\<close>)
  with ignora show ?thesis by (simp add: linea_tiempo_def)
qed

lemma loop_linea_tiempo:
  "rendimiento_loop ss (pos, ops) = Inr (pos', ops') \<Longrightarrow> sorted (linea_tiempo (pos, ops) ss)
   \<Longrightarrow> sorted (linea_tiempo (pos', ops') [])"
proof (induction ss arbitrary: pos ops)
  case Nil
  then show ?case by simp
next
  case (Cons s ss)
  from Cons.prems(1) obtain pos1 ops1 where
    p: "rendimiento_paso (pos, ops) s = Inr (pos1, ops1)"
    and l: "rendimiento_loop ss (pos1, ops1) = Inr (pos', ops')"
    by (auto split: sum.splits)
  from paso_linea_tiempo [OF p Cons.prems(2)] Cons.IH [OF l] show ?case by blast
qed


lemma loop_append1:
  "rendimiento_loop xs st = Inr st' \<Longrightarrow> rendimiento_loop (xs @ [s]) st = rendimiento_paso st' s"
  by (simp add: rendimiento_loop_append split: sum.splits)


lemma calcular_rendimiento_Some:
  assumes "calcular_rendimiento df senales = Inr (Some r)"
  obtains pos where "rendimiento_loop senales (None, []) = Inr (pos, operaciones r)"
    "operaciones r \<noteq> []"
    "num_operaciones r = length (operaciones r)"
    "rendimiento_total r = sum_list (map o_rendimiento (operaciones r))"
    "tasa_acierto r =
       real (length (filter (\<lambda>op. o_rendimiento op > 0) (operaciones r))) /
       real (length (operaciones r)) * 100"
    "rendimiento_promedio r = rendimiento_total r / real (length (operaciones r))"
proof -
  have n: "\<not> length senales < 2"
    using assms by (auto simp: calcular_rendimiento_def)
  show ?thesis
  proof (cases "rendimiento_loop senales (None, [])")
    case (Inl e)
    with assms n show ?thesis by (simp add: calcular_rendimiento_def)
  next
    case (Inr st)
    obtain pos ops where st: "st = (pos, ops)" by (cases st)
    have ne: "ops \<noteq> []"
      using assms n Inr st by (auto simp: calcular_rendimiento_def)
    have r: "r = \<lparr>operaciones = ops, rendimiento_total = sum_list (map o_rendimiento ops),
                  num_operaciones = length ops,
                  tasa_acierto =
                    real (length (filter (\<lambda>op. o_rendimiento op > 0) ops)) /
                    real (length ops) * 100,
                  rendimiento_promedio = sum_list (map o_rendimiento ops) / real (length ops)\<rparr>"
      using assms n Inr st ne by (simp add: calcular_rendimiento_def Let_def)
    show ?thesis
      by (rule that [of pos]) (simp_all add: r Inr st ne)
  qed
qed



text \<open>
  C2: \<^verbatim>\<open>calcular_rendimiento\<close> returns \<^verbatim>\<open>None\<close> for fewer than two signals and
  whenever the pairing loop closes no trade; whenever the loop closes a trade there are
  at least two signals and a summary with these trades is returned. The loop fails only
  by a division by a zero entry price, and then the function fails in the same way.
\<close>

theorem resumen_sii_operaciones:
  "(length senales < 2 \<longrightarrow> calcular_rendimiento df senales = Inr None) \<and>
   (rendimiento_loop senales (None, []) = Inr (pos, ops) \<longrightarrow>
      (ops = [] \<longrightarrow> calcular_rendimiento df senales = Inr None) \<and>
      (ops \<noteq> [] \<longrightarrow> 2 \<le> length senales \<and>
         (\<exists>r. calcular_rendimiento df senales = Inr (Some r) \<and> operaciones r = ops))) \<and>
   (rendimiento_loop senales (None, []) = Inl e \<longrightarrow> calcular_rendimiento df senales = Inl e)"
proof (intro conjI impI)
  show "calcular_rendimiento df senales = Inr None" if "length senales < 2"
    using that by (simp add: calcular_rendimiento_def)
next
  assume l: "rendimiento_loop senales (None, []) = Inr (pos, ops)"
  show "calcular_rendimiento df senales = Inr None" if "ops = []"
    using that l by (simp add: calcular_rendimiento_def)
  assume ne: "ops \<noteq> []"
  from loop_cuenta [OF l] ne have "2 * length ops \<le> length senales" by simp
  moreover have "0 < length ops" using ne by simp
  ultimately show two: "2 \<le> length senales" by linarith
  then show "\<exists>r. calcular_rendimiento df senales = Inr (Some r) \<and> operaciones r = ops"
    using l ne by (simp add: calcular_rendimiento_def Let_def)
next
  assume l: "rendimiento_loop senales (None, []) = Inl e"
  have "\<not> length senales < 2"
    using loop_menos_de_dos [of senales] l by auto
  then show "calcular_rendimiento df senales = Inl e"
    using l by (simp add: calcular_rendimiento_def)
qed

theorem resumen_sii_operaciones_witness:
  "length [senal_ej ''VENTA'' ''X'' 1 100] < 2 \<and>
   calcular_rendimiento [] [senal_ej ''VENTA'' ''X'' 1 100] = Inr None \<and>
   rendimiento_loop senales_ej2 (None, []) =
     Inr (Some \<lparr>entrada = 100, fecha_entrada = 1, p_symbol = ''X''\<rparr>, []) \<and>
   calcular_rendimiento [] senales_ej2 = Inr None \<and>
   rendimiento_loop senales_ej1 (None, []) = Inr (None, operaciones resumen_ej1) \<and>
   operaciones resumen_ej1 \<noteq> [] \<and> 2 \<le> length senales_ej1 \<and>
   calcular_rendimiento [] senales_ej1 = Inr (Some resumen_ej1) \<and>
   rendimiento_loop senales_ej3 (None, []) = Inl ZeroDivisionError \<and>
   calcular_rendimiento [] senales_ej3 = Inl ZeroDivisionError"
proof -
  let ?p = "\<lparr>entrada = 100, fecha_entrada = 1, p_symbol = ''X''\<rparr>"
  have h1: "length [senal_ej ''VENTA'' ''X'' 1 100] < 2" by simp
  have h2: "rendimiento_loop senales_ej2 (None, []) = Inr (Some ?p, [])" by code_simp
  have h3: "rendimiento_loop senales_ej1 (None, []) = Inr (None, operaciones resumen_ej1)"
    by code_simp
  have h4: "operaciones resumen_ej1 \<noteq> []" by (simp add: resumen_ej1_def)
  have h5: "rendimiento_loop senales_ej3 (None, []) = Inl ZeroDivisionError" by code_simp
  have h6: "calcular_rendimiento [] senales_ej1 = Inr (Some resumen_ej1)" by code_simp
  have c1: "calcular_rendimiento [] [senal_ej ''VENTA'' ''X'' 1 100] = Inr None"
    using resumen_sii_operaciones [of "[senal_ej ''VENTA'' ''X'' 1 100]" "[]"] h1 by blast
  have c2: "calcular_rendimiento [] senales_ej2 = Inr None"
    using resumen_sii_operaciones [of senales_ej2 "[]" "Some ?p" "[]"] h2 by blast
  have c3: "2 \<le> length senales_ej1"
    using resumen_sii_operaciones [of senales_ej1 "[]" None "operaciones resumen_ej1"] h3 h4
    by blast
  have c4: "calcular_rendimiento [] senales_ej3 = Inl ZeroDivisionError"
    using resumen_sii_operaciones [of senales_ej3 "[]" _ _ ZeroDivisionError] h5 by blast
  show ?thesis using h1 h2 h3 h4 h5 h6 c1 c2 c3 c4 by blast
qed

text \<open>
  C3 (amended): in every summary the win rate is the number of trades with a positive
  return divided by the number of trades, times 100 (a percentage); the total return is
  the sum of the returns of the trades and the average return is the total divided by the
  number of trades, which is not zero.
\<close>

theorem calcular_rendimiento_estadisticas:
  assumes "calcular_rendimiento df senales = Inr (Some r)"
  shows "operaciones r \<noteq> [] \<and> num_operaciones r = length (operaciones r) \<and>
     rendimiento_total r = sum_list (map o_rendimiento (operaciones r)) \<and>
     tasa_acierto r =
       real (length (filter (\<lambda>op. o_rendimiento op > 0) (operaciones r))) /
       real (num_operaciones r) * 100 \<and>
     rendimiento_promedio r = rendimiento_total r / real (num_operaciones r)"
  using assms by (rule calcular_rendimiento_Some) simp

theorem calcular_rendimiento_estadisticas_witness:
  "calcular_rendimiento [] senales_ej4 = Inr (Some resumen_ej4) \<and>
   tasa_acierto resumen_ej4 =
     real (length (filter (\<lambda>op. o_rendimiento op > 0) (operaciones resumen_ej4))) /
     real (num_operaciones resumen_ej4) * 100 \<and>
   rendimiento_promedio resumen_ej4 = rendimiento_total resumen_ej4 / real (num_operaciones resumen_ej4)"
proof -
  have h: "calcular_rendimiento [] senales_ej4 = Inr (Some resumen_ej4)" by code_simp
  show ?thesis using calcular_rendimiento_estadisticas [OF h] h by blast
qed

text \<open>
  As a plain fraction the win rate of one winning trade would be 1; the function
  returns 100.
\<close>

theorem tasa_acierto_counterexample:
  "calcular_rendimiento [] senales_ej4 = Inr (Some resumen_ej4) \<and>
   tasa_acierto resumen_ej4 = 100 \<and>
   fraccion_ganadoras (operaciones resumen_ej4) = 1 \<and>
   tasa_acierto resumen_ej4 \<noteq> fraccion_ganadoras (operaciones resumen_ej4)"
proof -
  have h: "calcular_rendimiento [] senales_ej4 = Inr (Some resumen_ej4)" by code_simp
  have t: "tasa_acierto resumen_ej4 = 100" by (simp add: resumen_ej4_def)
  have f: "fraccion_ganadoras (operaciones resumen_ej4) = 1"
    by (simp add: fraccion_ganadoras_def resumen_ej4_def)
  show ?thesis using h t f by simp
qed

text \<open>
  C10: the loop holds one position for the whole signal list. While a position of one
  instrument is open, a \<^verbatim>\<open>COMPRA\<close> of another instrument is ignored and a
  \<^verbatim>\<open>VENTA\<close> of another instrument is ignored; the only signal that changes the state is
  a \<^verbatim>\<open>VENTA\<close> of the instrument of the open position, which closes it. When the signals
  are in time order, the trades follow one another in time: no two of them overlap.
\<close>

theorem una_posicion_global:
  "(rendimiento_loop xs (None, []) = Inr (Some p, ops) \<and> s_tipo b = ''COMPRA'' \<and>
      s_symbol b \<noteq> p_symbol p \<longrightarrow>
      rendimiento_loop (xs @ [b]) (None, []) = Inr (Some p, ops)) \<and>
   (rendimiento_loop xs (None, []) = Inr (Some p, ops) \<and> s_tipo v = ''VENTA'' \<and>
      s_symbol v \<noteq> p_symbol p \<longrightarrow>
      rendimiento_loop (xs @ [v]) (None, []) = Inr (Some p, ops)) \<and>
   (rendimiento_loop xs (None, []) = Inr (Some p, ops) \<and>
      rendimiento_loop (xs @ [s]) (None, []) = Inr (pos1, ops1) \<and>
      (pos1, ops1) \<noteq> (Some p, ops) \<longrightarrow>
      s_tipo s = ''VENTA'' \<and> s_symbol s = p_symbol p \<and> pos1 = None \<and>
      butlast ops1 = ops \<and> o_symbol (last ops1) = p_symbol p \<and>
      o_entrada (last ops1) = entrada p) \<and>
   (sorted (map s_datetime senales) \<and> rendimiento_loop senales (None, []) = Inr (pos2, ops2) \<longrightarrow>
      sorted (concat (map (\<lambda>op. [o_fecha_entrada op, o_fecha_salida op]) ops2)))"
proof (intro conjI impI)
  assume a: "rendimiento_loop xs (None, []) = Inr (Some p, ops) \<and> s_tipo b = ''COMPRA'' \<and>
      s_symbol b \<noteq> p_symbol p"
  then show "rendimiento_loop (xs @ [b]) (None, []) = Inr (Some p, ops)"
    by (simp add: loop_append1 paso_compra_abierta)
next
  assume a: "rendimiento_loop xs (None, []) = Inr (Some p, ops) \<and> s_tipo v = ''VENTA'' \<and>
      s_symbol v \<noteq> p_symbol p"
  then show "rendimiento_loop (xs @ [v]) (None, []) = Inr (Some p, ops)"
    by (simp add: loop_append1 paso_otro_simbolo)
next
  assume a: "rendimiento_loop xs (None, []) = Inr (Some p, ops) \<and>
      rendimiento_loop (xs @ [s]) (None, []) = Inr (pos1, ops1) \<and>
      (pos1, ops1) \<noteq> (Some p, ops)"
  then have st: "rendimiento_paso (Some p, ops) s = Inr (pos1, ops1)"
    using loop_append1 [of xs "(None, [])" "(Some p, ops)" s] by auto
  from st have "s_tipo s = ''VENTA'' \<and> s_symbol s = p_symbol p \<and> pos1 = None \<and>
      butlast ops1 = ops \<and> o_symbol (last ops1) = p_symbol p \<and>
      o_entrada (last ops1) = entrada p"
  proof (cases rule: paso_cases)
    case abre
    then show ?thesis by simp
  next
    case (cierra q)
    then show ?thesis by simp
  next
    case ignora
    with a show ?thesis by simp
  qed
  then show "s_tipo s = ''VENTA''" "s_symbol s = p_symbol p" "pos1 = None" "butlast ops1 = ops"
    "o_symbol (last ops1) = p_symbol p" "o_entrada (last ops1) = entrada p"
    by simp_all
next
  assume a: "sorted (map s_datetime senales) \<and>
     rendimiento_loop senales (None, []) = Inr (pos2, ops2)"
  then have "sorted (linea_tiempo (None, []) senales)" by (simp add: linea_tiempo_def)
  with a have "sorted (linea_tiempo (pos2, ops2) [])" by (blast intro: loop_linea_tiempo)
  then show "sorted (concat (map (\<lambda>op. [o_fecha_entrada op, o_fecha_salida op]) ops2))"
    by (simp add: linea_tiempo_def sorted_append)
qed

theorem una_posicion_global_witness:
  "rendimiento_loop [senal_ej ''COMPRA'' ''A'' 1 100] (None, []) =
     Inr (Some \<lparr>entrada = 100, fecha_entrada = 1, p_symbol = ''A''\<rparr>, []) \<and>
   rendimiento_loop ([senal_ej ''COMPRA'' ''A'' 1 100] @ [senal_ej ''COMPRA'' ''B'' 2 50]) (None, []) =
     Inr (Some \<lparr>entrada = 100, fecha_entrada = 1, p_symbol = ''A''\<rparr>, []) \<and>
   rendimiento_loop ([senal_ej ''COMPRA'' ''A'' 1 100] @ [senal_ej ''VENTA'' ''B'' 3 55]) (None, []) =
     Inr (Some \<lparr>entrada = 100, fecha_entrada = 1, p_symbol = ''A''\<rparr>, []) \<and>
   rendimiento_loop ([senal_ej ''COMPRA'' ''A'' 1 100] @ [senal_ej ''VENTA'' ''A'' 4 110]) (None, []) =
     Inr (None, [hd operaciones_ej5]) \<and>
   s_symbol (senal_ej ''VENTA'' ''A'' 4 110) = ''A'' \<and>
   sorted (map s_datetime senales_ej5) \<and>
   rendimiento_loop senales_ej5 (None, []) = Inr (None, operaciones_ej5) \<and>
   sorted (concat (map (\<lambda>op. [o_fecha_entrada op, o_fecha_salida op]) operaciones_ej5))"
proof -
  let ?a = "senal_ej ''COMPRA'' ''A'' 1 100"
  let ?b = "senal_ej ''COMPRA'' ''B'' 2 50"
  let ?v = "senal_ej ''VENTA'' ''B'' 3 55"
  let ?s = "senal_ej ''VENTA'' ''A'' 4 110"
  let ?p = "\<lparr>entrada = 100, fecha_entrada = 1, p_symbol = ''A''\<rparr>"
  note t = una_posicion_global [of "[?a]" ?p "[]" ?b ?v ?s None "[hd operaciones_ej5]"
      senales_ej5 None operaciones_ej5]
  have h1: "rendimiento_loop [?a] (None, []) = Inr (Some ?p, [])" by code_simp
  have h2: "s_tipo ?b = ''COMPRA'' \<and> s_symbol ?b \<noteq> p_symbol ?p" by (simp add: senal_ej_def)
  have h3: "s_tipo ?v = ''VENTA'' \<and> s_symbol ?v \<noteq> p_symbol ?p" by (simp add: senal_ej_def)
  have h4: "rendimiento_loop ([?a] @ [?s]) (None, []) = Inr (None, [hd operaciones_ej5])"
    by code_simp
  have h5: "(None, [hd operaciones_ej5]) \<noteq> (Some ?p, [])" by simp
  have h6: "sorted (map s_datetime senales_ej5)" by (simp add: senales_ej5_def senal_ej_def)
  have h7: "rendimiento_loop senales_ej5 (None, []) = Inr (None, operaciones_ej5)" by code_simp
  have c1: "rendimiento_loop ([?a] @ [?b]) (None, []) = Inr (Some ?p, [])"
    using t h1 h2 by blast
  have c2: "rendimiento_loop ([?a] @ [?v]) (None, []) = Inr (Some ?p, [])"
    using t h1 h3 by blast
  have c3: "s_symbol ?s = p_symbol ?p" using t h1 h4 h5 by blast
  have c4: "sorted (concat (map (\<lambda>op. [o_fecha_entrada op, o_fecha_salida op]) operaciones_ej5))"
    using t h6 h7 by blast
  from c3 have c3': "s_symbol ?s = ''A''" by simp
  show ?thesis using h1 h4 h6 h7 c1 c2 c3' c4 by blast
qed

end
